theory Spec2Isabelle
  imports Main
begin

section \<open>The kernel status item: data\<close>

text \<open>
  The development embeds \<^verbatim>\<open>src/defaults/kernelStatus.tsx\<close>: the view model
  \<^verbatim>\<open>KernelStatus.Model\<close> and the widget \<^verbatim>\<open>KernelStatus\<close>.

  Sessions are objects owned by the host and shared by reference: the model keeps a
  reference to the attached session and connects its two handlers to signals that live in
  the session object. The sessions are therefore kept in an explicit store, from
  references to session objects. A reference always denotes an object (there is no
  dangling reference in the source language), so the store is a total function.
\<close>

type_synonym ref = nat

text \<open>
  \<^verbatim>\<open>Kernel.Status\<close> is a union of string literals; its declaration is not part of
  the file. The code only copies status values and passes them to the title-casing of the
  label, so they are kept as the strings they are at run time.
\<close>

type_synonym Kernel_Status = string

text \<open>
  A slot is a function connected to a signal. The model installs two of them, its
  properties \<^verbatim>\<open>_onKernelStatusChanged\<close> and \<^verbatim>\<open>_onKernelChanged\<close>; every
  other receiver of a session's signals is a foreign slot.
\<close>

datatype slot = Slot_onKernelStatusChanged | Slot_onKernelChanged | Slot_foreign nat

text \<open>
  The members of \<^verbatim>\<open>IClientSession\<close> that the file reads. A signal is represented by
  the set of slots connected to it: connecting a slot that is already connected adds
  nothing, and the order in which receivers are called is not observable by the model.
\<close>

record IClientSession =
  session_status :: Kernel_Status
  session_kernelDisplayName :: string
  session_type :: string
  session_statusChanged :: "slot set"
  session_kernelChanged :: "slot set"

type_synonym heap = "ref \<Rightarrow> IClientSession"

text \<open>\<^verbatim>\<open>Kernel.IKernelConnection\<close>, as far as the handler reads it
  (\<^verbatim>\<open>newValue.status\<close> and \<^verbatim>\<open>newValue.model.name\<close>), and the argument of the
  kernel-changed signal.\<close>

record IKernelConnection =
  kernel_status :: Kernel_Status
  kernel_model_name :: string

record IKernelChangedArgs =
  oldValue :: "IKernelConnection option"
  newValue :: "IKernelConnection option"

text \<open>
  The private fields of \<^verbatim>\<open>KernelStatus.Model\<close> (lines 234 to 236), and the number
  of times the inherited signal \<^verbatim>\<open>stateChanged\<close> has been emitted.
\<close>

record Model =
  kernelName :: string
  kernelStatus :: Kernel_Status
  session :: "ref option"
  stateChanged :: nat

section \<open>Strings and signals\<close>

text \<open>
  \<^verbatim>\<open>String.prototype.toLowerCase\<close> is the case conversion of Unicode. A string is
  kept as its bytes in UTF-8, so a character below 128 is an ASCII character and any other
  character is part of a letter outside ASCII. On a string of ASCII characters the
  conversion replaces each of the letters \<open>A\<close> to \<open>Z\<close> by its small letter and keeps
  every other character. On any other string it follows the case tables of the runtime,
  which are not part of the sources: there the result is given by the parameter \<open>lc\<close>,
  the built-in conversion itself. Every function that lower-cases a name carries this
  parameter, and every statement about it holds for every \<open>lc\<close>.
\<close>

definition is_ascii :: "string \<Rightarrow> bool" where
  "is_ascii s = list_all (\<lambda>c. (of_char c :: nat) < 128) s"

definition lower_char :: "char \<Rightarrow> char" where
  "lower_char c =
     (if 65 \<le> (of_char c :: nat) \<and> (of_char c :: nat) \<le> 90
      then char_of ((of_char c :: nat) + 32) else c)"

definition toLowerCase :: "(string \<Rightarrow> string) \<Rightarrow> string \<Rightarrow> string" where
  "toLowerCase lc s = (if is_ascii s then map lower_char s else lc s)"

definition connect :: "slot \<Rightarrow> slot set \<Rightarrow> slot set" where
  "connect f sig = insert f sig"

definition disconnect :: "slot \<Rightarrow> slot set \<Rightarrow> slot set" where
  "disconnect f sig = sig - {f}"

section \<open>The view model\<close>

text \<open>The getters, lines 167 to 181. The type is read from the attached session.\<close>

definition Model_name :: "Model \<Rightarrow> string" where
  "Model_name m = kernelName m"

definition Model_status :: "Model \<Rightarrow> Kernel_Status" where
  "Model_status m = kernelStatus m"

definition Model_type :: "heap \<Rightarrow> Model \<Rightarrow> string option" where
  "Model_type h m = (case session m of None \<Rightarrow> None | Some r \<Rightarrow> Some (session_type (h r)))"

definition Model_session :: "Model \<Rightarrow> ref option" where
  "Model_session m = session m"

text \<open>
  The setter of \<^verbatim>\<open>session\<close>, lines 183 to 208, in the three steps of its body:
  the handlers are disconnected from the old session (lines 184 to 190), the new session
  is stored and read, and the handlers are connected to it (lines 192 to 205), and
  \<^verbatim>\<open>stateChanged\<close> is emitted (line 207).
\<close>

fun disconnect_old :: "heap \<times> Model \<Rightarrow> heap \<times> Model" where
  "disconnect_old (h, m) =
     (case session m of
        None \<Rightarrow> (h, m)
      | Some old \<Rightarrow>
          (h(old := (h old)
               \<lparr>session_statusChanged :=
                  disconnect Slot_onKernelStatusChanged (session_statusChanged (h old)),
                session_kernelChanged :=
                  disconnect Slot_onKernelChanged (session_kernelChanged (h old))\<rparr>),
           m))"

fun assign_session :: "(string \<Rightarrow> string) \<Rightarrow> ref option \<Rightarrow> heap \<times> Model \<Rightarrow> heap \<times> Model" where
  "assign_session lc None (h, m) =
     (h, m\<lparr>session := None, kernelStatus := ''unknown'', kernelName := ''unknown''\<rparr>)"
| "assign_session lc (Some r) (h, m) =
     (h(r := (h r)
          \<lparr>session_statusChanged :=
             connect Slot_onKernelStatusChanged (session_statusChanged (h r)),
           session_kernelChanged :=
             connect Slot_onKernelChanged (session_kernelChanged (h r))\<rparr>),
      m\<lparr>session := Some r,
        kernelStatus := session_status (h r),
        kernelName := toLowerCase lc (session_kernelDisplayName (h r))\<rparr>)"

fun emit_stateChanged :: "heap \<times> Model \<Rightarrow> heap \<times> Model" where
  "emit_stateChanged (h, m) = (h, m\<lparr>stateChanged := Suc (stateChanged m)\<rparr>)"

definition set_session :: "(string \<Rightarrow> string) \<Rightarrow> ref option \<Rightarrow> heap \<times> Model \<Rightarrow> heap \<times> Model" where
  "set_session lc s \<sigma> = emit_stateChanged (assign_session lc s (disconnect_old \<sigma>))"

text \<open>The constructor, lines 162 to 165: the field initialisers, then the setter.\<close>

definition new_Model :: "(string \<Rightarrow> string) \<Rightarrow> ref option \<Rightarrow> heap \<Rightarrow> heap \<times> Model" where
  "new_Model lc s h =
     set_session lc s
       (h, \<lparr>kernelName = ''unknown'', kernelStatus = ''unknown'', session = None,
            stateChanged = 0\<rparr>)"

text \<open>The two handlers, lines 210 to 232.\<close>

definition onKernelStatusChanged :: "Kernel_Status \<Rightarrow> Model \<Rightarrow> Model" where
  "onKernelStatusChanged status m =
     (m\<lparr>kernelStatus := status\<rparr>)\<lparr>stateChanged := Suc (stateChanged m)\<rparr>"

definition onKernelChanged :: "(string \<Rightarrow> string) \<Rightarrow> IKernelChangedArgs \<Rightarrow> Model \<Rightarrow> Model" where
  "onKernelChanged lc change m =
     (let m' = (case newValue change of
                  Some k \<Rightarrow> m\<lparr>kernelStatus := kernel_status k,
                              kernelName := toLowerCase lc (kernel_model_name k)\<rparr>
                | None \<Rightarrow> m\<lparr>kernelStatus := ''unknown'', kernelName := ''unknown''\<rparr>)
      in m'\<lparr>stateChanged := Suc (stateChanged m')\<rparr>)"

text \<open>
  A session emitting one of its signals calls the slots connected to it. The model's
  handler runs when, and only when, its slot is in the signal of the emitting session;
  foreign slots do not touch the model.
\<close>

fun emit_statusChanged :: "ref \<Rightarrow> Kernel_Status \<Rightarrow> heap \<times> Model \<Rightarrow> heap \<times> Model" where
  "emit_statusChanged r v (h, m) =
     (h, if Slot_onKernelStatusChanged \<in> session_statusChanged (h r)
         then onKernelStatusChanged v m else m)"

fun emit_kernelChanged :: "(string \<Rightarrow> string) \<Rightarrow> ref \<Rightarrow> IKernelChangedArgs \<Rightarrow> heap \<times> Model \<Rightarrow> heap \<times> Model" where
  "emit_kernelChanged lc r c (h, m) =
     (h, if Slot_onKernelChanged \<in> session_kernelChanged (h r)
         then onKernelChanged lc c m else m)"

section \<open>The widget\<close>

datatype error = TypeError

text \<open>
  The widgets the shell can focus. \<^verbatim>\<open>instanceof NotebookPanel\<close> and
  \<^verbatim>\<open>instanceof ConsolePanel\<close> become the constructors; a panel carries the reference
  to its session.
\<close>

datatype NotebookPanel = NotebookPanel (notebook_session: ref)

datatype ConsolePanel = ConsolePanel (console_session: ref)

datatype Widget = Notebook NotebookPanel | Console ConsolePanel | Other_widget nat

record IChangedArgs =
  shell_oldValue :: "Widget option"
  shell_newValue :: "Widget option"

text \<open>The element that \<^verbatim>\<open>KernelStatusComponent\<close> returns: a \<^verbatim>\<open>TextItem\<close> with
  its three properties. The only callback the file passes is \<^verbatim>\<open>_handleClick\<close>.\<close>

datatype callback = Callback_handleClick

record TextItem =
  onClick :: callback
  title :: string
  source :: string

text \<open>
  The state of the widget: its model (\<^verbatim>\<open>VDomRenderer.model\<close>, which may be null), the
  CSS classes of its node, the current widget of the shell it was given, and the commands
  it has executed on the command registry, oldest first.
\<close>

record KernelStatus =
  model :: "Model option"
  classList :: "string set"
  currentWidget :: "Widget option"
  executed :: "string list"

text \<open>
  Modelled from the spec: the constant \<^verbatim>\<open>interactiveItem\<close> of
  \<^verbatim>\<open>../style/statusBar\<close> is not in the sources; it is the name of the class the spec
  calls the "interactive" marker class.
\<close>

definition interactiveItem :: string where
  "interactiveItem = ''interactiveItem''"

definition addClass :: "string \<Rightarrow> KernelStatus \<Rightarrow> KernelStatus" where
  "addClass c w = w\<lparr>classList := insert c (classList w)\<rparr>"

definition removeClass :: "string \<Rightarrow> KernelStatus \<Rightarrow> KernelStatus" where
  "removeClass c w = w\<lparr>classList := classList w - {c}\<rparr>"

text \<open>
  \<^verbatim>\<open>KernelStatusComponent\<close>, lines 28 to 40. \<^verbatim>\<open>TextExt.titleCase\<close> is defined in
  \<^verbatim>\<open>../util/text\<close>, which is not in the sources: it is the parameter \<open>tc\<close>.
\<close>

definition KernelStatusComponent ::
  "(string \<Rightarrow> string) \<Rightarrow> callback \<Rightarrow> string \<Rightarrow> Kernel_Status \<Rightarrow> TextItem" where
  "KernelStatusComponent tc handleClick name status =
     \<lparr>onClick = handleClick, title = ''Current active kernel'',
      source = tc name @ '' | '' @ tc status\<rparr>"

text \<open>\<^verbatim>\<open>render\<close>, lines 73 to 85; \<open>None\<close> is the null it returns.\<close>

definition render :: "(string \<Rightarrow> string) \<Rightarrow> KernelStatus \<Rightarrow> TextItem option" where
  "render tc w =
     (case model w of
        None \<Rightarrow> None
      | Some m \<Rightarrow>
          Some (KernelStatusComponent tc Callback_handleClick (Model_name m) (Model_status m)))"

text \<open>\<^verbatim>\<open>_getFocusedSession\<close>, lines 131 to 143.\<close>

fun getFocusedSession :: "Widget option \<Rightarrow> ref option" where
  "getFocusedSession None = None"
| "getFocusedSession (Some (Notebook p)) = Some (notebook_session p)"
| "getFocusedSession (Some (Console p)) = Some (console_session p)"
| "getFocusedSession (Some (Other_widget _)) = None"

text \<open>
  The assignment \<^verbatim>\<open>this.model!.session = s\<close>. The \<^verbatim>\<open>!\<close> is erased by the
  compiler: with a null model the assignment throws a \<^verbatim>\<open>TypeError\<close>.
\<close>

fun assign_model_session ::
  "(string \<Rightarrow> string) \<Rightarrow> ref option \<Rightarrow> heap \<times> KernelStatus \<Rightarrow> error + heap \<times> KernelStatus" where
  "assign_model_session lc s (h, w) =
     (case model w of
        None \<Rightarrow> Inl TypeError
      | Some m \<Rightarrow> (case set_session lc s (h, m) of (h', m') \<Rightarrow> Inr (h', w\<lparr>model := Some m'\<rparr>)))"

text \<open>
  The constructor, lines 52 to 71, given the current widget of the shell and the classes
  \<open>base\<close> that the constructor of the base class has put on the node.
\<close>

definition new_KernelStatus ::
  "(string \<Rightarrow> string) \<Rightarrow> string set \<Rightarrow> Widget option \<Rightarrow> heap \<Rightarrow> heap \<times> KernelStatus" where
  "new_KernelStatus lc base cur h =
     (case new_Model lc (getFocusedSession cur) h of
        (h', m) \<Rightarrow>
          (let w = \<lparr>model = Some m, classList = base, currentWidget = cur, executed = []\<rparr>
           in (h', if Model_type h' m = Some ''notebook''
                   then addClass interactiveItem w else w)))"

text \<open>
  \<^verbatim>\<open>onUpdateRequest\<close>, lines 95 to 107. The call of the inherited method renders the
  element and changes none of the state kept here.
\<close>

definition onUpdateRequest :: "(string \<Rightarrow> string) \<Rightarrow> heap \<times> KernelStatus \<Rightarrow> error + heap \<times> KernelStatus" where
  "onUpdateRequest lc \<sigma> =
     (case assign_model_session lc (getFocusedSession (currentWidget (snd \<sigma>))) \<sigma> of
        Inl e \<Rightarrow> Inl e
      | Inr (h, w) \<Rightarrow>
          (case model w of
             None \<Rightarrow> Inl TypeError
           | Some m \<Rightarrow>
               Inr (h, if Model_type h m = Some ''notebook''
                       then addClass interactiveItem w else removeClass interactiveItem w)))"

text \<open>\<^verbatim>\<open>_handleClick\<close>, lines 109 to 113.\<close>

fun handleClick :: "heap \<times> KernelStatus \<Rightarrow> error + heap \<times> KernelStatus" where
  "handleClick (h, w) =
     (case model w of
        None \<Rightarrow> Inl TypeError
      | Some m \<Rightarrow>
          Inr (h, if Model_type h m = Some ''notebook''
                  then w\<lparr>executed := executed w @ [''notebook:change-kernel'']\<rparr> else w))"

text \<open>\<^verbatim>\<open>_onNotebookChange\<close> and \<^verbatim>\<open>_onConsoleChange\<close>, lines 115 to 129:
  \<^verbatim>\<open>panel && panel.session\<close> is null for a null panel.\<close>

definition onNotebookChange ::
  "(string \<Rightarrow> string) \<Rightarrow> NotebookPanel option \<Rightarrow> heap \<times> KernelStatus \<Rightarrow> error + heap \<times> KernelStatus" where
  "onNotebookChange lc panel \<sigma> =
     (case assign_model_session lc (map_option notebook_session panel) \<sigma> of
        Inl e \<Rightarrow> Inl e
      | Inr (h, w) \<Rightarrow> Inr (h, addClass interactiveItem w))"

definition onConsoleChange ::
  "(string \<Rightarrow> string) \<Rightarrow> ConsolePanel option \<Rightarrow> heap \<times> KernelStatus \<Rightarrow> error + heap \<times> KernelStatus" where
  "onConsoleChange lc panel \<sigma> =
     (case assign_model_session lc (map_option console_session panel) \<sigma> of
        Inl e \<Rightarrow> Inl e
      | Inr (h, w) \<Rightarrow> Inr (h, removeClass interactiveItem w))"

text \<open>\<^verbatim>\<open>_onMainAreaCurrentChange\<close>, lines 145 to 152.\<close>

definition onMainAreaCurrentChange ::
  "(string \<Rightarrow> string) \<Rightarrow> IChangedArgs \<Rightarrow> heap \<times> KernelStatus \<Rightarrow> error + heap \<times> KernelStatus" where
  "onMainAreaCurrentChange lc change \<sigma> =
     (let editor = getFocusedSession (shell_newValue change)
      in assign_model_session lc editor \<sigma>)"

text \<open>
  The three focus signals the constructor connects to (lines 60 to 62), as events, each
  dispatched to its handler; a sequence of events stops at the first exception. The
  focused widget of an event is the widget it carries.
\<close>

datatype focus_event =
  NotebookChange "NotebookPanel option"
| ConsoleChange "ConsolePanel option"
| MainAreaCurrentChange IChangedArgs

fun dispatch :: "(string \<Rightarrow> string) \<Rightarrow> focus_event \<Rightarrow> heap \<times> KernelStatus \<Rightarrow> error + heap \<times> KernelStatus" where
  "dispatch lc (NotebookChange p) \<sigma> = onNotebookChange lc p \<sigma>"
| "dispatch lc (ConsoleChange p) \<sigma> = onConsoleChange lc p \<sigma>"
| "dispatch lc (MainAreaCurrentChange c) \<sigma> = onMainAreaCurrentChange lc c \<sigma>"

fun run :: "(string \<Rightarrow> string) \<Rightarrow> focus_event list \<Rightarrow> heap \<times> KernelStatus \<Rightarrow> error + heap \<times> KernelStatus" where
  "run lc [] \<sigma> = Inr \<sigma>"
| "run lc (e # es) \<sigma> = (case dispatch lc e \<sigma> of Inl x \<Rightarrow> Inl x | Inr \<sigma>' \<Rightarrow> run lc es \<sigma>')"

fun focused :: "focus_event \<Rightarrow> Widget option" where
  "focused (NotebookChange p) = map_option Notebook p"
| "focused (ConsoleChange p) = map_option Console p"
| "focused (MainAreaCurrentChange c) = shell_newValue c"

text \<open>A sequence of calls of the setter of the model, oldest first.\<close>

definition attach_all :: "(string \<Rightarrow> string) \<Rightarrow> ref option list \<Rightarrow> heap \<times> Model \<Rightarrow> heap \<times> Model" where
  "attach_all lc ss \<sigma> = foldl (\<lambda>\<sigma>' s. set_session lc s \<sigma>') \<sigma> ss"

text \<open>
  The handlers of a model are properties initialised with new functions when the model is
  constructed, so no signal holds them before the constructor runs: the store is then
  unobserved. A state has one subscription when each handler of the model is connected to
  the signal of the session the model holds, and to no other.
\<close>

definition unobserved :: "heap \<Rightarrow> bool" where
  "unobserved h =
     (\<forall>r. Slot_onKernelStatusChanged \<notin> session_statusChanged (h r)
          \<and> Slot_onKernelChanged \<notin> session_kernelChanged (h r))"

definition one_subscription :: "heap \<times> Model \<Rightarrow> bool" where
  "one_subscription \<sigma> =
     (\<forall>r. (Slot_onKernelStatusChanged \<in> session_statusChanged (fst \<sigma> r)) = (session (snd \<sigma>) = Some r)
          \<and> (Slot_onKernelChanged \<in> session_kernelChanged (fst \<sigma> r)) = (session (snd \<sigma>) = Some r))"

text \<open>
  Modelled from the spec: \<^verbatim>\<open>TextExt.titleCase\<close> of \<^verbatim>\<open>../util/text\<close> is not in the
  sources. The spec calls its result the title-cased string and gives
  \<open>''Python3''\<close> for \<open>''python3''\<close> and \<open>''Unknown''\<close> for \<open>''unknown''\<close>: the first
  letter of each word separated by spaces in upper case, the other letters in lower case.
\<close>

definition upper_char :: "char \<Rightarrow> char" where
  "upper_char c =
     (if 97 \<le> (of_char c :: nat) \<and> (of_char c :: nat) \<le> 122
      then char_of ((of_char c :: nat) - 32) else c)"

fun title_from :: "bool \<Rightarrow> string \<Rightarrow> string" where
  "title_from b [] = []"
| "title_from b (c # cs) =
     (if c = CHR '' '' then c # title_from True cs
      else (if b then upper_char c else lower_char c) # title_from False cs)"

definition titleCase :: "string \<Rightarrow> string" where
  "titleCase s = title_from True s"

text \<open>A store for the examples: every session idle, with a notebook kernel, observed by
  one foreign receiver and not by the model.\<close>

definition example_heap :: heap where
  "example_heap =
     (\<lambda>r. \<lparr>session_status = ''idle'', session_kernelDisplayName = ''Python 3'',
           session_type = ''notebook'', session_statusChanged = {},
           session_kernelChanged = {Slot_foreign 0}\<rparr>)"

text \<open>
  For the examples, a conversion that agrees with the runtime on the one string outside
  ASCII they use: the capital E with acute accent (the bytes C3 89) becomes the small one
  (the bytes C3 A9). The second store gives session 2 that capital letter as the display
  name of its kernel.
\<close>

definition example_lc :: "string \<Rightarrow> string" where
  "example_lc s = (if s = [CHR 0xC3, CHR 0x89] then [CHR 0xC3, CHR 0xA9] else s)"

definition example_heap2 :: heap where
  "example_heap2 =
     example_heap(2 := (example_heap 2)\<lparr>session_kernelDisplayName := [CHR 0xC3, CHR 0x89]\<rparr>)"

definition example_model :: Model where
  "example_model =
     \<lparr>kernelName = ''julia'', kernelStatus = ''busy'', session = None, stateChanged = 7\<rparr>"

section \<open>Lower case\<close>

text \<open>The conversion written out: the letters \<open>A\<close> to \<open>Z\<close> of a string of ASCII
  characters move up by 32, and a string with a character outside ASCII is left to the
  runtime.\<close>

lemma toLowerCase_unfold:
  "toLowerCase lc d =
     (if list_all (\<lambda>c. (of_char c :: nat) < 128) d
      then map (\<lambda>c. if 65 \<le> (of_char c :: nat) \<and> (of_char c :: nat) \<le> 90
                    then char_of ((of_char c :: nat) + 32) else c) d
      else lc d)"
proof -
  have "lower_char = (\<lambda>c. if 65 \<le> (of_char c :: nat) \<and> (of_char c :: nat) \<le> 90
                    then char_of ((of_char c :: nat) + 32) else c)"
    by (rule ext) (simp add: lower_char_def)
  then show ?thesis by (simp add: toLowerCase_def is_ascii_def)
qed

lemma lower_Python: "toLowerCase lc ''Python 3'' = ''python 3''"
  by code_simp

lemma lower_E_acute: "toLowerCase example_lc [CHR 0xC3, CHR 0x89] = [CHR 0xC3, CHR 0xA9]"
  by code_simp

section \<open>The setter of the session\<close>

lemma set_session_None:
  "set_session lc None (h, m) =
     (fst (disconnect_old (h, m)),
      m\<lparr>session := None, kernelStatus := ''unknown'', kernelName := ''unknown'',
        stateChanged := Suc (stateChanged m)\<rparr>)"
  by (simp add: set_session_def split: option.splits)

lemma disconnect_old_status [simp]:
  "session_status (fst (disconnect_old (h, m)) r) = session_status (h r)"
  by (simp split: option.splits)

lemma disconnect_old_name [simp]:
  "session_kernelDisplayName (fst (disconnect_old (h, m)) r) = session_kernelDisplayName (h r)"
  by (simp split: option.splits)

lemma disconnect_old_type [simp]:
  "session_type (fst (disconnect_old (h, m)) r) = session_type (h r)"
  by (simp split: option.splits)

lemma disconnect_old_model [simp]: "snd (disconnect_old (h, m)) = m"
  by (simp split: option.splits)

lemma set_session_Some_model:
  "snd (set_session lc (Some r) (h, m)) =
     m\<lparr>session := Some r, kernelStatus := session_status (h r),
       kernelName := toLowerCase lc (session_kernelDisplayName (h r)),
       stateChanged := Suc (stateChanged m)\<rparr>"
proof -
  obtain h1 m1 where d: "disconnect_old (h, m) = (h1, m1)"
    by (cases "disconnect_old (h, m)")
  have "m1 = m" using disconnect_old_model [of h m] d by simp
  moreover have "session_status (h1 r) = session_status (h r)"
    using disconnect_old_status [of h m r] d by simp
  moreover have "session_kernelDisplayName (h1 r) = session_kernelDisplayName (h r)"
    using disconnect_old_name [of h m r] d by simp
  ultimately show ?thesis unfolding set_session_def d by simp
qed

lemma set_session_Some_connected:
  "Slot_onKernelStatusChanged \<in> session_statusChanged (fst (set_session lc (Some r) (h, m)) r)
   \<and> Slot_onKernelChanged \<in> session_kernelChanged (fst (set_session lc (Some r) (h, m)) r)"
proof -
  obtain h1 m1 where d: "disconnect_old (h, m) = (h1, m1)"
    by (cases "disconnect_old (h, m)")
  show ?thesis unfolding set_session_def d by (simp add: connect_def)
qed

text \<open>
  C2. A call of the setter with no session leaves the name and the status
  \<open>''unknown''\<close> and the type absent. A call with the session \<open>r\<close> leaves the status of
  \<open>r\<close> and the display name of the kernel of \<open>r\<close> in lower case, and both handlers of
  the model connected to the signals of \<open>r\<close>. The lower case is written out: in a
  display name of ASCII characters the letters \<open>A\<close> to \<open>Z\<close> have become small letters and
  the other characters are kept; any other display name is converted by the runtime.
\<close>

theorem set_session_values:
  "(let (h', m') = set_session lc None (h, m)
    in Model_name m' = ''unknown'' \<and> Model_status m' = ''unknown'' \<and> Model_type h' m' = None
       \<and> Model_session m' = None)
   \<and> (let (h', m') = set_session lc (Some r) (h, m)
      in Model_status m' = session_status (h r)
         \<and> Model_name m' = toLowerCase lc (session_kernelDisplayName (h r))
         \<and> Model_name m' =
             (if list_all (\<lambda>c. (of_char c :: nat) < 128) (session_kernelDisplayName (h r))
              then map (\<lambda>c. if 65 \<le> (of_char c :: nat) \<and> (of_char c :: nat) \<le> 90
                            then char_of ((of_char c :: nat) + 32) else c) (session_kernelDisplayName (h r))
              else lc (session_kernelDisplayName (h r)))
         \<and> Model_session m' = Some r
         \<and> Slot_onKernelStatusChanged \<in> session_statusChanged (h' r)
         \<and> Slot_onKernelChanged \<in> session_kernelChanged (h' r))"
proof -
  have none: "let (h', m') = set_session lc None (h, m)
    in Model_name m' = ''unknown'' \<and> Model_status m' = ''unknown'' \<and> Model_type h' m' = None
       \<and> Model_session m' = None"
    by (simp add: set_session_None Model_name_def Model_status_def Model_type_def
        Model_session_def)
  obtain h' m' where s: "set_session lc (Some r) (h, m) = (h', m')"
    by (cases "set_session lc (Some r) (h, m)")
  have m': "m' = m\<lparr>session := Some r, kernelStatus := session_status (h r),
       kernelName := toLowerCase lc (session_kernelDisplayName (h r)),
       stateChanged := Suc (stateChanged m)\<rparr>"
    using set_session_Some_model [of lc r h m] s by simp
  have conn: "Slot_onKernelStatusChanged \<in> session_statusChanged (h' r)
      \<and> Slot_onKernelChanged \<in> session_kernelChanged (h' r)"
    using set_session_Some_connected [of lc r h m] s by simp
  have some: "let (h', m') = set_session lc (Some r) (h, m)
      in Model_status m' = session_status (h r)
         \<and> Model_name m' = toLowerCase lc (session_kernelDisplayName (h r))
         \<and> Model_name m' =
             (if list_all (\<lambda>c. (of_char c :: nat) < 128) (session_kernelDisplayName (h r))
              then map (\<lambda>c. if 65 \<le> (of_char c :: nat) \<and> (of_char c :: nat) \<le> 90
                            then char_of ((of_char c :: nat) + 32) else c) (session_kernelDisplayName (h r))
              else lc (session_kernelDisplayName (h r)))
         \<and> Model_session m' = Some r
         \<and> Slot_onKernelStatusChanged \<in> session_statusChanged (h' r)
         \<and> Slot_onKernelChanged \<in> session_kernelChanged (h' r)"
    using conn toLowerCase_unfold [of lc "session_kernelDisplayName (h r)"]
    by (simp add: s m' Model_name_def Model_status_def Model_session_def)
  from none some show ?thesis by simp
qed

theorem set_session_values_witness:
  "(let (h', m') = set_session example_lc (Some 3) (example_heap2, example_model)
    in Model_name m' = ''python 3'' \<and> Model_status m' = ''idle''
       \<and> Slot_onKernelStatusChanged \<in> session_statusChanged (h' 3)
       \<and> Slot_onKernelChanged \<in> session_kernelChanged (h' 3))
   \<and> (let (h', m') = set_session example_lc (Some 2) (example_heap2, example_model)
      in Model_name m' = [CHR 0xC3, CHR 0xA9])
   \<and> (let (h', m') = set_session example_lc None (example_heap2, example_model)
      in Model_name m' = ''unknown'' \<and> Model_status m' = ''unknown'' \<and> Model_type h' m' = None)"
proof -
  have d1: "session_kernelDisplayName (example_heap2 3) = ''Python 3''"
    by (simp add: example_heap2_def example_heap_def)
  have d2: "session_kernelDisplayName (example_heap2 2) = [CHR 0xC3, CHR 0x89]"
    by (simp add: example_heap2_def)
  have s1: "session_status (example_heap2 3) = ''idle''"
    by (simp add: example_heap2_def example_heap_def)
  show ?thesis
    using set_session_values [of example_lc example_heap2 example_model 3]
      set_session_values [of example_lc example_heap2 example_model 2]
    by (simp add: d1 d2 s1 lower_Python lower_E_acute split: prod.splits)
qed

text \<open>
  C3. Every call of the setter, with a session or with none and from any state of the
  model, emits \<^verbatim>\<open>stateChanged\<close> exactly once: the count of emissions goes up by one,
  also when the call changes none of the name, the status and the session.
\<close>

theorem set_session_emits_once:
  "stateChanged (snd (set_session lc s (h, m))) = Suc (stateChanged m)"
proof (cases s)
  case None
  then show ?thesis by (simp add: set_session_None)
next
  case (Some r)
  then show ?thesis by (simp add: set_session_Some_model)
qed

section \<open>One session is observed at a time\<close>

lemma disconnect_old_unobserved:
  "one_subscription (h, m) \<Longrightarrow> unobserved (fst (disconnect_old (h, m)))"
  by (auto simp: one_subscription_def unobserved_def disconnect_def split: option.splits)

lemma disconnect_old_session: "session (snd (disconnect_old (h, m))) = session m"
  by (simp split: option.splits)

lemma assign_session_one:
  "unobserved h \<Longrightarrow> one_subscription (assign_session lc s (h, m))"
  by (cases s) (auto simp: one_subscription_def unobserved_def connect_def)

lemma emit_stateChanged_one:
  "one_subscription \<sigma> \<Longrightarrow> one_subscription (emit_stateChanged \<sigma>)"
  by (cases \<sigma>) (simp add: one_subscription_def)

lemma set_session_one:
  assumes "one_subscription \<sigma>"
  shows "one_subscription (set_session lc s \<sigma>)"
proof -
  obtain h m where \<sigma>: "\<sigma> = (h, m)" by (cases \<sigma>)
  obtain h1 m1 where d: "disconnect_old (h, m) = (h1, m1)" by (cases "disconnect_old (h, m)")
  have "unobserved h1" using disconnect_old_unobserved [of h m] assms \<sigma> d by simp
  then have "one_subscription (assign_session lc s (h1, m1))" by (rule assign_session_one)
  then show ?thesis unfolding set_session_def \<sigma> d by (rule emit_stateChanged_one)
qed

lemma new_Model_one: "unobserved h \<Longrightarrow> one_subscription (new_Model lc s h)"
  unfolding new_Model_def
  by (rule set_session_one) (simp add: one_subscription_def unobserved_def)

lemma attach_all_one:
  "one_subscription \<sigma> \<Longrightarrow> one_subscription (attach_all lc ss \<sigma>)"
  unfolding attach_all_def
  by (induction ss arbitrary: \<sigma>) (simp_all add: set_session_one)

lemma emit_statusChanged_other:
  "one_subscription (h, m) \<Longrightarrow> session m \<noteq> Some r \<Longrightarrow> emit_statusChanged r v (h, m) = (h, m)"
  by (simp add: one_subscription_def)

lemma emit_kernelChanged_other:
  "one_subscription (h, m) \<Longrightarrow> session m \<noteq> Some r \<Longrightarrow> emit_kernelChanged lc r c (h, m) = (h, m)"
  by (simp add: one_subscription_def)


text \<open>
  C1. Start from a model constructed on a store that does not hold its handlers yet, and
  call the setter any number of times. In every state reached, the handlers of the model
  are connected to the session the model holds and to no other session, so at most one
  session is observed. In the next call of the setter, once the first step has run, the
  handlers are connected to no session at all: the old session is released before the new
  one is subscribed. A session that is not the attached one no longer calls the handlers:
  its status-changed and kernel-changed signals leave the model as it is, the count of
  emitted notifications included.
\<close>

theorem one_session_observed:
  assumes "unobserved h0"
  shows "one_subscription (attach_all lc ss (new_Model lc s0 h0))
    \<and> unobserved (fst (disconnect_old (attach_all lc ss (new_Model lc s0 h0))))
    \<and> (session (snd (attach_all lc ss (new_Model lc s0 h0))) \<noteq> Some r \<longrightarrow>
         emit_statusChanged r v (attach_all lc ss (new_Model lc s0 h0)) = attach_all lc ss (new_Model lc s0 h0)
         \<and> emit_kernelChanged lc r c (attach_all lc ss (new_Model lc s0 h0)) = attach_all lc ss (new_Model lc s0 h0))"
proof -
  obtain h m where \<sigma>: "attach_all lc ss (new_Model lc s0 h0) = (h, m)"
    by (cases "attach_all lc ss (new_Model lc s0 h0)")
  have "one_subscription (new_Model lc s0 h0)"
    using assms by (rule new_Model_one)
  then have "one_subscription (attach_all lc ss (new_Model lc s0 h0))"
    by (rule attach_all_one)
  then have one: "one_subscription (h, m)"
    by (simp add: \<sigma>)
  have before: "unobserved (fst (disconnect_old (h, m)))"
    using one by (rule disconnect_old_unobserved)
  have after: "session m \<noteq> Some r \<longrightarrow>
      emit_statusChanged r v (h, m) = (h, m) \<and> emit_kernelChanged lc r c (h, m) = (h, m)"
    using one emit_statusChanged_other [of h m r v] emit_kernelChanged_other [of h m r lc c]
    by blast
  from one before after show ?thesis unfolding \<sigma> by simp
qed

theorem one_session_observed_witness:
  "unobserved example_heap
   \<and> session (snd (attach_all id [Some 2, None, Some 3] (new_Model id (Some 1) example_heap))) \<noteq> Some 1
   \<and> one_subscription (attach_all id [Some 2, None, Some 3] (new_Model id (Some 1) example_heap))
   \<and> unobserved (fst (disconnect_old (attach_all id [Some 2, None, Some 3] (new_Model id (Some 1) example_heap))))
   \<and> emit_statusChanged 1 ''busy'' (attach_all id [Some 2, None, Some 3] (new_Model id (Some 1) example_heap))
       = attach_all id [Some 2, None, Some 3] (new_Model id (Some 1) example_heap)"
proof -
  have u: "unobserved example_heap"
    by (simp add: unobserved_def example_heap_def)
  have s: "session (snd (attach_all id [Some 2, None, Some 3] (new_Model id (Some 1) example_heap))) \<noteq> Some 1"
    by (simp add: attach_all_def new_Model_def set_session_def split: prod.splits)
  show ?thesis
    using u s one_session_observed [OF u, of id "[Some 2, None, Some 3]" "Some 1" 1 "''busy''"]
    by blast
qed

section \<open>Focus changes\<close>

lemma set_session_session: "session (snd (set_session lc s (h, m))) = s"
  by (cases s) (simp_all add: set_session_None set_session_Some_model)

lemma assign_model_session_Some:
  "model w = Some m \<Longrightarrow>
   assign_model_session lc s (h, w) =
     Inr (fst (set_session lc s (h, m)), w\<lparr>model := Some (snd (set_session lc s (h, m)))\<rparr>)"
  by (simp split: prod.splits)

lemma assign_model_session_None:
  "model w = None \<Longrightarrow> assign_model_session lc s (h, w) = Inl TypeError"
  by simp

lemma dispatch_Some:
  assumes "model w = Some m"
  shows "\<exists>h' w' m'. dispatch lc e (h, w) = Inr (h', w') \<and> model w' = Some m'
           \<and> session m' = getFocusedSession (focused e)"
proof (cases e)
  case (NotebookChange p)
  then show ?thesis
    using assms
    by (cases p)
      (simp_all add: onNotebookChange_def assign_model_session_Some set_session_session
        addClass_def del: assign_model_session.simps)
next
  case (ConsoleChange p)
  then show ?thesis
    using assms
    by (cases p)
      (simp_all add: onConsoleChange_def assign_model_session_Some set_session_session
        removeClass_def del: assign_model_session.simps)
next
  case (MainAreaCurrentChange c)
  then show ?thesis
    using assms
    by (simp add: onMainAreaCurrentChange_def Let_def assign_model_session_Some
        set_session_session del: assign_model_session.simps)
qed

lemma run_Some:
  "model w = Some m \<Longrightarrow> \<exists>h' w' m'. run lc es (h, w) = Inr (h', w') \<and> model w' = Some m'"
proof (induction es arbitrary: h w m)
  case Nil
  then show ?case by simp
next
  case (Cons e es)
  from dispatch_Some [OF Cons.prems, of lc e h]
  obtain h1 w1 m1 where d: "dispatch lc e (h, w) = Inr (h1, w1)" and m1: "model w1 = Some m1"
    by blast
  from Cons.IH [OF m1, of h1] show ?case by (simp add: d)
qed

lemma run_snoc:
  "run lc (es @ [e]) \<sigma> = (case run lc es \<sigma> of Inl x \<Rightarrow> Inl x | Inr \<sigma>' \<Rightarrow> dispatch lc e \<sigma>')"
  by (induction es arbitrary: \<sigma>) (simp_all split: sum.splits)

text \<open>
  C4. Take any sequence of focus events on a widget that has its model, and let \<open>e\<close> be
  the last of them. No handler throws, and afterwards the session of the model is the
  session of the panel that \<open>e\<close> carries when the focused widget is a notebook panel or a
  console panel, and none when it is any other widget or when there is no focused widget.
\<close>

theorem focus_resolution:
  "case run lc (es @ [e]) (h, w\<lparr>model := Some m\<rparr>) of
     Inl x \<Rightarrow> False
   | Inr (h', w') \<Rightarrow>
       map_option Model_session (model w') =
         Some (case focused e of
                 None \<Rightarrow> None
               | Some (Notebook p) \<Rightarrow> Some (notebook_session p)
               | Some (Console p) \<Rightarrow> Some (console_session p)
               | Some (Other_widget n) \<Rightarrow> None)"
proof -
  have "model (w\<lparr>model := Some m\<rparr>) = Some m" by simp
  from run_Some [OF this, of lc es h]
  obtain h1 w1 m1 where r: "run lc es (h, w\<lparr>model := Some m\<rparr>) = Inr (h1, w1)"
    and m1: "model w1 = Some m1" by blast
  from dispatch_Some [OF m1, of lc e h1]
  obtain h2 w2 m2 where d: "dispatch lc e (h1, w1) = Inr (h2, w2)" and m2: "model w2 = Some m2"
    and s: "session m2 = getFocusedSession (focused e)" by blast
  have g: "getFocusedSession (focused e) =
      (case focused e of
         None \<Rightarrow> None
       | Some (Notebook p) \<Rightarrow> Some (notebook_session p)
       | Some (Console p) \<Rightarrow> Some (console_session p)
       | Some (Other_widget n) \<Rightarrow> None)"
    by (simp split: option.splits Widget.splits)
  show ?thesis
    using g s by (simp add: run_snoc r d m2 Model_session_def)
qed


section \<open>Setting the same session twice\<close>

lemma set_session_fields:
  "session_status (fst (set_session lc s (h, m)) r) = session_status (h r)
   \<and> session_kernelDisplayName (fst (set_session lc s (h, m)) r) = session_kernelDisplayName (h r)
   \<and> session_type (fst (set_session lc s (h, m)) r) = session_type (h r)"
proof -
  obtain h1 m1 where d: "disconnect_old (h, m) = (h1, m1)"
    by (cases "disconnect_old (h, m)")
  have "\<forall>r. session_status (h1 r) = session_status (h r)"
    using disconnect_old_status [of h m] d by simp
  moreover have "\<forall>r. session_kernelDisplayName (h1 r) = session_kernelDisplayName (h r)"
    using disconnect_old_name [of h m] d by simp
  moreover have "\<forall>r. session_type (h1 r) = session_type (h r)"
    using disconnect_old_type [of h m] d by simp
  ultimately show ?thesis unfolding set_session_def d by (cases s) simp_all
qed

lemma set_session_same_store:
  assumes "session m = Some r"
    and "Slot_onKernelStatusChanged \<in> session_statusChanged (h r)"
    and "Slot_onKernelChanged \<in> session_kernelChanged (h r)"
  shows "fst (set_session lc (Some r) (h, m)) = h"
proof -
  have "insert Slot_onKernelStatusChanged (session_statusChanged (h r) - {Slot_onKernelStatusChanged})
      = session_statusChanged (h r)"
    using assms(2) by blast
  moreover have "insert Slot_onKernelChanged (session_kernelChanged (h r) - {Slot_onKernelChanged})
      = session_kernelChanged (h r)"
    using assms(3) by blast
  ultimately show ?thesis
    using assms(1) by (simp add: set_session_def connect_def disconnect_def)
qed

lemma set_session_None_store: "session m = None \<Longrightarrow> fst (set_session lc None (h, m)) = h"
  by (simp add: set_session_None)

lemma set_session_twice_store:
  "fst (set_session lc s (set_session lc s (h, m))) = fst (set_session lc s (h, m))"
proof -
  obtain h1 m1 where s1: "set_session lc s (h, m) = (h1, m1)"
    by (cases "set_session lc s (h, m)")
  have sess: "session m1 = s" using set_session_session [of lc s h m] s1 by simp
  show ?thesis
  proof (cases s)
    case None
    then show ?thesis using sess s1 by (simp add: set_session_None_store)
  next
    case (Some r)
    have "Slot_onKernelStatusChanged \<in> session_statusChanged (h1 r)
        \<and> Slot_onKernelChanged \<in> session_kernelChanged (h1 r)"
      using set_session_Some_connected [of lc r h m] s1 Some by simp
    then show ?thesis using sess s1 Some by (simp add: set_session_same_store)
  qed
qed

text \<open>
  C10. Call the setter with \<open>s\<close>, then at once with \<open>s\<close> again. The second call leaves
  the store as the first call left it (so every session has the same connected slots), and
  the same name, status, type and session in the model; it emits \<^verbatim>\<open>stateChanged\<close>
  once more.
\<close>

theorem set_session_twice:
  "let \<sigma>1 = set_session lc s (h, m); \<sigma>2 = set_session lc s \<sigma>1
   in fst \<sigma>2 = fst \<sigma>1
      \<and> Model_name (snd \<sigma>2) = Model_name (snd \<sigma>1)
      \<and> Model_status (snd \<sigma>2) = Model_status (snd \<sigma>1)
      \<and> Model_type (fst \<sigma>2) (snd \<sigma>2) = Model_type (fst \<sigma>1) (snd \<sigma>1)
      \<and> Model_session (snd \<sigma>2) = Model_session (snd \<sigma>1)
      \<and> stateChanged (snd \<sigma>2) = Suc (stateChanged (snd \<sigma>1))"
proof -
  obtain h1 m1 where s1: "set_session lc s (h, m) = (h1, m1)"
    by (cases "set_session lc s (h, m)")
  have store: "fst (set_session lc s (h1, m1)) = h1"
    using set_session_twice_store [of lc s h m] s1 by simp
  have sess: "session m1 = s" using set_session_session [of lc s h m] s1 by simp
  have sess2: "session (snd (set_session lc s (h1, m1))) = s" by (rule set_session_session)
  have count: "stateChanged (snd (set_session lc s (h1, m1))) = Suc (stateChanged m1)"
    by (cases s) (simp_all add: set_session_None set_session_Some_model)
  have vals: "kernelName (snd (set_session lc s (h1, m1))) = kernelName m1
      \<and> kernelStatus (snd (set_session lc s (h1, m1))) = kernelStatus m1"
  proof (cases s)
    case None
    then show ?thesis
      using set_session_None [of lc h m] s1 by (auto simp add: set_session_None)
  next
    case (Some r)
    have "m1 = m\<lparr>session := Some r, kernelStatus := session_status (h r),
       kernelName := toLowerCase lc (session_kernelDisplayName (h r)),
       stateChanged := Suc (stateChanged m)\<rparr>"
      using set_session_Some_model [of lc r h m] s1 Some by simp
    moreover have "session_status (h1 r) = session_status (h r)
        \<and> session_kernelDisplayName (h1 r) = session_kernelDisplayName (h r)"
      using set_session_fields [of lc s h m r] s1 by simp
    ultimately show ?thesis using Some by (simp add: set_session_Some_model)
  qed
  show ?thesis
    using store sess sess2 count vals
    by (simp add: s1 Let_def Model_name_def Model_status_def Model_type_def Model_session_def
        set_session_fields split: option.splits)
qed

section \<open>The handlers of the model\<close>

text \<open>
  C5. The kernel-changed handler, given a new kernel, stores the status of that kernel and
  the name of its model in lower case (the letters \<open>A\<close> to \<open>Z\<close> of a name of ASCII
  characters made small, any other name converted by the runtime); given no kernel, it
  stores \<open>''unknown''\<close> for both. In either case it keeps the session and emits \<^verbatim>\<open>stateChanged\<close> once. The
  handler is a function from models to models: it has no exception among its results. A
  kernel-changed signal of the attached session runs exactly this handler.
\<close>

theorem kernel_changed_handled:
  "(let m' = onKernelChanged lc (c\<lparr>newValue := Some k\<rparr>) m
    in Model_status m' = kernel_status k
       \<and> Model_name m' = toLowerCase lc (kernel_model_name k)
       \<and> Model_name m' =
           (if list_all (\<lambda>c. (of_char c :: nat) < 128) (kernel_model_name k)
            then map (\<lambda>c. if 65 \<le> (of_char c :: nat) \<and> (of_char c :: nat) \<le> 90
                          then char_of ((of_char c :: nat) + 32) else c) (kernel_model_name k)
            else lc (kernel_model_name k))
       \<and> Model_session m' = Model_session m
       \<and> stateChanged m' = Suc (stateChanged m))
   \<and> (let m' = onKernelChanged lc (c\<lparr>newValue := None\<rparr>) m
      in Model_status m' = ''unknown''
         \<and> Model_name m' = ''unknown''
         \<and> Model_session m' = Model_session m
         \<and> stateChanged m' = Suc (stateChanged m))
   \<and> emit_kernelChanged lc r c (set_session lc (Some r) (h, m)) =
       (fst (set_session lc (Some r) (h, m)), onKernelChanged lc c (snd (set_session lc (Some r) (h, m))))"
proof -
  obtain h1 m1 where s1: "set_session lc (Some r) (h, m) = (h1, m1)"
    by (cases "set_session lc (Some r) (h, m)")
  have "Slot_onKernelChanged \<in> session_kernelChanged (h1 r)"
    using set_session_Some_connected [of lc r h m] s1 by simp
  then have "emit_kernelChanged lc r c (h1, m1) = (h1, onKernelChanged lc c m1)" by simp
  then show ?thesis
    using toLowerCase_unfold [of lc "kernel_model_name k"]
    by (simp add: s1 onKernelChanged_def Model_status_def Model_name_def Model_session_def)
qed

theorem kernel_changed_handled_witness:
  "(let m' = onKernelChanged example_lc
               \<lparr>oldValue = None,
                newValue = Some \<lparr>kernel_status = ''idle'', kernel_model_name = ''Python 3''\<rparr>\<rparr>
               example_model
    in Model_status m' = ''idle'' \<and> Model_name m' = ''python 3'' \<and> stateChanged m' = 8)
   \<and> (let m' = onKernelChanged example_lc
                 \<lparr>oldValue = None,
                  newValue = Some \<lparr>kernel_status = ''idle'',
                                   kernel_model_name = [CHR 0xC3, CHR 0x89]\<rparr>\<rparr>
                 example_model
      in Model_name m' = [CHR 0xC3, CHR 0xA9])
   \<and> (let m' = onKernelChanged example_lc \<lparr>oldValue = None, newValue = None\<rparr> example_model
      in Model_status m' = ''unknown'' \<and> Model_name m' = ''unknown'' \<and> stateChanged m' = 8)"
proof -
  have n: "stateChanged example_model = 7" by (simp add: example_model_def)
  show ?thesis
    using
      kernel_changed_handled [where lc = example_lc and m = example_model
        and c = "\<lparr>oldValue = None, newValue = None\<rparr>"
        and k = "\<lparr>kernel_status = ''idle'', kernel_model_name = ''Python 3''\<rparr>"]
      kernel_changed_handled [where lc = example_lc and m = example_model
        and c = "\<lparr>oldValue = None, newValue = None\<rparr>"
        and k = "\<lparr>kernel_status = ''idle'', kernel_model_name = [CHR 0xC3, CHR 0x89]\<rparr>"]
    by (simp add: n lower_Python lower_E_acute Let_def)
qed

text \<open>
  C6. The status-changed handler stores the value \<open>v\<close> it is given as the status of the
  model and emits \<^verbatim>\<open>stateChanged\<close> once; the name, the type and the session of the
  model stay as they were. A status-changed signal of the attached session runs exactly
  this handler and leaves the store alone.
\<close>

theorem status_changed_frame:
  "(let m' = onKernelStatusChanged v m
    in Model_status m' = v
       \<and> stateChanged m' = Suc (stateChanged m)
       \<and> Model_name m' = Model_name m
       \<and> Model_type h m' = Model_type h m
       \<and> Model_session m' = Model_session m)
   \<and> emit_statusChanged r v (set_session lc (Some r) (h, m)) =
       (fst (set_session lc (Some r) (h, m)),
        onKernelStatusChanged v (snd (set_session lc (Some r) (h, m))))"
proof -
  obtain h1 m1 where s1: "set_session lc (Some r) (h, m) = (h1, m1)"
    by (cases "set_session lc (Some r) (h, m)")
  have "Slot_onKernelStatusChanged \<in> session_statusChanged (h1 r)"
    using set_session_Some_connected [of lc r h m] s1 by simp
  then have "emit_statusChanged r v (h1, m1) = (h1, onKernelStatusChanged v m1)" by simp
  then show ?thesis
    by (simp add: s1 onKernelStatusChanged_def Model_status_def Model_name_def
        Model_session_def Model_type_def)
qed

section \<open>Rendering and clicks\<close>

text \<open>
  C7. With a model whose name is \<open>n\<close> and whose status is \<open>s\<close>, the widget renders a
  text item whose source is the title-cased \<open>n\<close>, a space, a vertical bar, a space and
  the title-cased \<open>s\<close>, for whatever function \<open>tc\<close> does the title-casing. Without a
  model it renders nothing.
\<close>

theorem render_label:
  "render tc (w\<lparr>model := Some m\<rparr>) =
     Some \<lparr>onClick = Callback_handleClick, title = ''Current active kernel'',
           source = tc (Model_name m) @ [CHR '' '', CHR ''|'', CHR '' ''] @ tc (Model_status m)\<rparr>
   \<and> render tc (w\<lparr>model := None\<rparr>) = None"
  by (simp add: render_def KernelStatusComponent_def)

text \<open>The example of the spec, with the title-casing modelled from it.\<close>

lemma render_example:
  "render titleCase
     (w\<lparr>model := Some \<lparr>kernelName = ''python3'', kernelStatus = ''idle'', session = s,
                         stateChanged = n\<rparr>\<rparr>) =
     Some \<lparr>onClick = Callback_handleClick, title = ''Current active kernel'',
           source = ''Python3 | Idle''\<rparr>"
proof -
  have "titleCase ''python3'' = ''Python3''" by code_simp
  moreover have "titleCase ''idle'' = ''Idle''" by code_simp
  ultimately show ?thesis
    by (simp add: render_def KernelStatusComponent_def Model_name_def Model_status_def)
qed

text \<open>
  C8. A click on a widget that has its model executes the command
  \<open>''notebook:change-kernel''\<close> once, after the commands executed before, when the type
  of the model is \<open>''notebook''\<close>; for any other type, and for no type, it executes
  nothing. Nothing else changes.
\<close>

theorem click_executes:
  "handleClick (h, w\<lparr>model := Some m\<rparr>) =
     Inr (h, w\<lparr>model := Some m,
               executed := executed w @
                 (if Model_type h m = Some ''notebook'' then [''notebook:change-kernel''] else [])\<rparr>)"
  by simp

text \<open>
  C9. On a widget that has its model, the class \<^verbatim>\<open>interactiveItem\<close> is on the node
  after a notebook focus change, whatever panel it carries, also none, and is not on the
  node after a console focus change. After an update request it is on the node exactly
  when the type of the model is then \<open>''notebook''\<close>.
\<close>

theorem interactive_class:
  "(case onNotebookChange lc p (h, w\<lparr>model := Some m\<rparr>) of
      Inl x \<Rightarrow> False
    | Inr (h', w') \<Rightarrow> interactiveItem \<in> classList w')
   \<and> (case onConsoleChange lc q (h, w\<lparr>model := Some m\<rparr>) of
        Inl x \<Rightarrow> False
      | Inr (h', w') \<Rightarrow> interactiveItem \<notin> classList w')
   \<and> (case onUpdateRequest lc (h, w\<lparr>model := Some m\<rparr>) of
        Inl x \<Rightarrow> False
      | Inr (h', w') \<Rightarrow>
          (interactiveItem \<in> classList w') =
          (case model w' of None \<Rightarrow> False | Some m' \<Rightarrow> Model_type h' m' = Some ''notebook''))"
proof -
  have m: "model (w\<lparr>model := Some m\<rparr>) = Some m" by simp
  have a: "case onNotebookChange lc p (h, w\<lparr>model := Some m\<rparr>) of
      Inl x \<Rightarrow> False
    | Inr (h', w') \<Rightarrow> interactiveItem \<in> classList w'"
    by (simp add: onNotebookChange_def assign_model_session_Some [OF m] addClass_def
        del: assign_model_session.simps)
  have b: "case onConsoleChange lc q (h, w\<lparr>model := Some m\<rparr>) of
        Inl x \<Rightarrow> False
      | Inr (h', w') \<Rightarrow> interactiveItem \<notin> classList w'"
    by (simp add: onConsoleChange_def assign_model_session_Some [OF m] removeClass_def
        del: assign_model_session.simps)
  have c: "case onUpdateRequest lc (h, w\<lparr>model := Some m\<rparr>) of
        Inl x \<Rightarrow> False
      | Inr (h', w') \<Rightarrow>
          (interactiveItem \<in> classList w') =
          (case model w' of None \<Rightarrow> False | Some m' \<Rightarrow> Model_type h' m' = Some ''notebook'')"
    by (simp add: onUpdateRequest_def assign_model_session_Some [OF m] addClass_def
        removeClass_def del: assign_model_session.simps)
  from a b c show ?thesis by simp
qed

text \<open>
  A widget without a model renders nothing, so it has no text item to click; the click
  handler itself would dereference the null model.
\<close>

lemma click_without_model:
  "render tc (w\<lparr>model := None\<rparr>) = None \<and> handleClick (h, w\<lparr>model := None\<rparr>) = Inl TypeError"
  by (simp add: render_def)

section \<open>The scenarios of the specification, evaluated\<close>

text \<open>
  The scenarios run on the example store, where every session is idle with the kernel
  display name \<open>''Python 3''\<close>: a notebook gets the focus, then the item is clicked; a
  plain editor gets the focus after a notebook; the kernel of the attached session goes
  away.
\<close>

lemma title1: "titleCase ''python 3'' = ''Python 3''"
  by code_simp

lemma title2: "titleCase ''idle'' = ''Idle''"
  by code_simp

lemma title3: "titleCase ''unknown'' = ''Unknown''"
  by code_simp

lemma scenario_notebook:
  "case run lc [NotebookChange (Some (NotebookPanel 1))] (new_KernelStatus lc {''p-Widget''} None example_heap) of
     Inl x \<Rightarrow> False
   | Inr (h, w) \<Rightarrow>
       map_option source (render titleCase w) = Some ''Python 3 | Idle''
       \<and> interactiveItem \<in> classList w
       \<and> (case handleClick (h, w) of
            Inl x \<Rightarrow> False
          | Inr (h', w') \<Rightarrow> executed w' = [''notebook:change-kernel''])"
  by (simp add: new_KernelStatus_def new_Model_def set_session_def example_heap_def
      onNotebookChange_def addClass_def render_def KernelStatusComponent_def Model_name_def
      Model_status_def Model_type_def lower_Python title1 title2 connect_def Let_def)

lemma scenario_editor:
  "case run lc [MainAreaCurrentChange \<lparr>shell_oldValue = Some (Notebook (NotebookPanel 1)),
                                     shell_newValue = Some (Other_widget 0)\<rparr>]
          (new_KernelStatus lc {''p-Widget''} (Some (Notebook (NotebookPanel 1)))
             example_heap) of
     Inl x \<Rightarrow> False
   | Inr (h, w) \<Rightarrow>
       map_option Model_session (model w) = Some None
       \<and> map_option source (render titleCase w) = Some ''Unknown | Unknown''
       \<and> unobserved h"
  by (simp add: new_KernelStatus_def new_Model_def set_session_def example_heap_def
      onMainAreaCurrentChange_def render_def KernelStatusComponent_def Model_name_def
      Model_status_def Model_type_def Model_session_def lower_Python title3 connect_def
      disconnect_def unobserved_def addClass_def Let_def)

lemma scenario_kernel_gone:
  "case emit_kernelChanged lc 1
          \<lparr>oldValue = Some \<lparr>kernel_status = ''busy'', kernel_model_name = ''python3''\<rparr>,
           newValue = None\<rparr>
          (new_Model lc (Some 1) example_heap) of
     (h, m) \<Rightarrow> Model_name m = ''unknown'' \<and> Model_status m = ''unknown'' \<and> stateChanged m = 2"
  by (simp add: new_Model_def set_session_def example_heap_def onKernelChanged_def
      Model_name_def Model_status_def connect_def)

end
